theory Spec2Isabelle
  imports Main "HOL-Library.Sublist" "HOL-Library.Word"
begin

unbundle bit_operations_syntax

section \<open>Errors\<close>

text \<open>
  The plugin reports every failure as a Go \<^verbatim>\<open>error\<close> built from a message.
  Each message of the source is one constructor:
  \<^item> \<open>DurationError\<close>: the error of \<^verbatim>\<open>time.ParseDuration\<close>, for the given text;
  \<^item> \<open>ProviderRequired\<close>: \<^verbatim>\<open>provider is required\<close>;
  \<^item> \<open>UnsupportedProvider\<close>: \<^verbatim>\<open>unsupported provider %q\<close>;
  \<^item> \<open>MissingIPv4Resolver\<close>: \<^verbatim>\<open>custom provider requires an ipv4Resolver\<close>;
  \<^item> \<open>MissingIPv6Resolver\<close>:
    \<^verbatim>\<open>custom provider requires an ipv6Resolver when whitelistIPv6 is true\<close>;
  \<^item> \<open>PollIntervalNotPositive\<close>: \<^verbatim>\<open>poll interval must be greater than 0\<close>;
  \<^item> \<open>NotIPv6Address\<close>: \<^verbatim>\<open>input is not an IPv6 address: %s\<close>;
  \<^item> \<open>NoRangesResolved\<close>: \<^verbatim>\<open>no source ranges resolved\<close>;
  \<^item> \<open>HTTPError\<close>: the error returned by the HTTP getter;
  \<^item> \<open>CloudflareEmpty\<close>: \<^verbatim>\<open>cloudflare: empty IPv4 range list\<close>;
  \<^item> \<open>FastlyJSON\<close>, \<open>CloudfrontJSON\<close>: the wrapped error of \<^verbatim>\<open>json.Unmarshal\<close>;
  \<^item> \<open>FastlyEmpty\<close>: \<^verbatim>\<open>fastly: empty IPv4 addresses list\<close>;
  \<^item> \<open>CloudfrontEmpty\<close>: \<^verbatim>\<open>cloudfront: empty IPv4 prefix set\<close>;
  \<^item> \<open>InvalidIPv4Response\<close>: \<^verbatim>\<open>custom provider: invalid IPv4 response\<close>;
  \<^item> \<open>InvalidIPv6Response\<close>: \<^verbatim>\<open>custom provider: invalid IPv6 response\<close>.
\<close>

datatype error =
    DurationError string
  | ProviderRequired
  | UnsupportedProvider string
  | MissingIPv4Resolver
  | MissingIPv6Resolver
  | PollIntervalNotPositive
  | NotIPv6Address string
  | NoRangesResolved
  | HTTPError string
  | CloudflareEmpty
  | FastlyJSON string
  | FastlyEmpty
  | CloudfrontJSON string
  | CloudfrontEmpty
  | InvalidIPv4Response
  | InvalidIPv6Response

section \<open>Go strings as byte lists\<close>

text \<open>
  A Go \<^verbatim>\<open>string\<close> is a sequence of bytes; it is modelled as a \<^typ>\<open>string\<close>
  (a list of 8-bit characters). The functions of the Go standard library that the
  plugin calls are modelled on these bytes.
\<close>

definition byte :: "char \<Rightarrow> nat" where
  "byte c = of_char c"

text \<open>
  \<^verbatim>\<open>strings.TrimSpace\<close> removes, from both ends, every rune for which
  \<^verbatim>\<open>unicode.IsSpace\<close> holds: the six ASCII bytes of \<^verbatim>\<open>asciiSpace\<close>
  and U+0085, U+00A0, U+1680, U+2000..U+200A, U+2028, U+2029, U+202F, U+205F, U+3000.
  On bytes, these runes are recognised by their UTF-8 encodings.
\<close>

definition asciiSpace :: "char list" where
  "asciiSpace = [CHR 0x09, CHR 0x0A, CHR 0x0B, CHR 0x0C, CHR 0x0D, CHR 0x20]"

definition spaceRunes :: "string list" where
  "spaceRunes = map (\<lambda>c. [c]) asciiSpace @
     [[CHR 0xC2, CHR 0x85], [CHR 0xC2, CHR 0xA0], [CHR 0xE1, CHR 0x9A, CHR 0x80],
      [CHR 0xE2, CHR 0x80, CHR 0x80], [CHR 0xE2, CHR 0x80, CHR 0x81],
      [CHR 0xE2, CHR 0x80, CHR 0x82], [CHR 0xE2, CHR 0x80, CHR 0x83],
      [CHR 0xE2, CHR 0x80, CHR 0x84], [CHR 0xE2, CHR 0x80, CHR 0x85],
      [CHR 0xE2, CHR 0x80, CHR 0x86], [CHR 0xE2, CHR 0x80, CHR 0x87],
      [CHR 0xE2, CHR 0x80, CHR 0x88], [CHR 0xE2, CHR 0x80, CHR 0x89],
      [CHR 0xE2, CHR 0x80, CHR 0x8A], [CHR 0xE2, CHR 0x80, CHR 0xA8],
      [CHR 0xE2, CHR 0x80, CHR 0xA9], [CHR 0xE2, CHR 0x80, CHR 0xAF],
      [CHR 0xE2, CHR 0x81, CHR 0x9F], [CHR 0xE3, CHR 0x80, CHR 0x80]]"

text \<open>The first of the encodings \<open>ts\<close> that \<open>s\<close> starts with, if any.\<close>

definition leadingRune :: "string list \<Rightarrow> string \<Rightarrow> string option" where
  "leadingRune ts s = find (\<lambda>t. t \<noteq> [] \<and> prefix t s) ts"

lemma leadingRune_shorter:
  "leadingRune ts s = Some t \<Longrightarrow> length s - length t < length s"
  by (auto simp: leadingRune_def find_Some_iff prefix_def)

function trimLeftRunes :: "string list \<Rightarrow> string \<Rightarrow> string" where
  "trimLeftRunes ts s =
     (case leadingRune ts s of
        None \<Rightarrow> s
      | Some t \<Rightarrow> trimLeftRunes ts (drop (length t) s))"
  by pat_completeness auto
termination
  by (relation "measure (\<lambda>(ts, s). length s)") (auto simp: leadingRune_shorter)

declare trimLeftRunes.simps [simp del]

definition TrimLeftSpace :: "string \<Rightarrow> string" where
  "TrimLeftSpace s = trimLeftRunes spaceRunes s"

definition TrimRightSpace :: "string \<Rightarrow> string" where
  "TrimRightSpace s = rev (trimLeftRunes (map rev spaceRunes) (rev s))"

definition TrimSpace :: "string \<Rightarrow> string" where
  "TrimSpace s = TrimRightSpace (TrimLeftSpace s)"

text \<open>
  \<^verbatim>\<open>strings.ToLower\<close>: the letters \<^verbatim>\<open>A\<close>..\<^verbatim>\<open>Z\<close> become
  \<^verbatim>\<open>a\<close>..\<^verbatim>\<open>z\<close>. Go sends the runes outside ASCII through
  \<^verbatim>\<open>unicode.ToLower\<close>; the model keeps their bytes. The plugin only compares the
  result with the four provider names, and no rune outside ASCII is lowered to a letter
  that occurs in one of them, so the comparison is the same.
\<close>

definition lowerByte :: "char \<Rightarrow> char" where
  "lowerByte c = (if 65 \<le> byte c \<and> byte c \<le> 90 then char_of (byte c + 32) else c)"

definition ToLower :: "string \<Rightarrow> string" where
  "ToLower s = map lowerByte s"

text \<open>
  \<^verbatim>\<open>strings.Split(s, sep)\<close> for a separator of one byte (the plugin splits on
  \<^verbatim>\<open>"\n"\<close> only): cut at every occurrence of the separator, left to right; a
  string without the separator is returned as the single piece.
\<close>

fun IndexByte :: "string \<Rightarrow> char \<Rightarrow> nat option" where
  "IndexByte [] c = None"
| "IndexByte (x # xs) c = (if x = c then Some 0 else map_option Suc (IndexByte xs c))"

lemma IndexByte_less: "IndexByte s c = Some m \<Longrightarrow> m < length s"
  by (induction s arbitrary: m) (auto split: if_splits)

function Split :: "string \<Rightarrow> char \<Rightarrow> string list" where
  "Split s sep =
     (case IndexByte s sep of
        None \<Rightarrow> [s]
      | Some m \<Rightarrow> take m s # Split (drop (m + 1) s) sep)"
  by pat_completeness auto
termination
  by (relation "measure (\<lambda>(s, sep). length s)") (auto dest: IndexByte_less)

declare Split.simps [simp del]

text \<open>\<^verbatim>\<open>strings.Join(parts, sep)\<close> for a separator of one byte.\<close>

fun Join :: "string list \<Rightarrow> char \<Rightarrow> string" where
  "Join [] sep = []"
| "Join [p] sep = p"
| "Join (p # q # ps) sep = p @ sep # Join (q # ps) sep"

section \<open>IP addresses: the functions of package net\<close>

text \<open>
  A \<^verbatim>\<open>net.IP\<close> is a byte slice; \<^verbatim>\<open>nil\<close> is \<open>None\<close>.
  \<^verbatim>\<open>net.ParseIP\<close> parses with \<^verbatim>\<open>netip.ParseAddr\<close>, rejects an address
  with a zone and returns the 16-byte form (an IPv4 address as \<^verbatim>\<open>::ffff:a.b.c.d\<close>).
\<close>

type_synonym IP = "8 word list option"

definition isDigit :: "char \<Rightarrow> bool" where
  "isDigit c \<longleftrightarrow> 48 \<le> byte c \<and> byte c \<le> 57"

definition hexDigit :: "char \<Rightarrow> nat option" where
  "hexDigit c =
     (if 48 \<le> byte c \<and> byte c \<le> 57 then Some (byte c - 48)
      else if 97 \<le> byte c \<and> byte c \<le> 102 then Some (byte c - 97 + 10)
      else if 65 \<le> byte c \<and> byte c \<le> 70 then Some (byte c - 65 + 10)
      else None)"

text \<open>
  \<^verbatim>\<open>parseIPv4Fields\<close>: the loop over the bytes, with the value and the number of
  digits of the current octet, the index \<open>pos\<close> of the octet and the octets read so
  far. \<open>first\<close> says that the byte is the first one or follows a dot.
\<close>

fun parseIPv4Fields ::
  "string \<Rightarrow> bool \<Rightarrow> nat \<Rightarrow> nat \<Rightarrow> nat \<Rightarrow> 8 word list \<Rightarrow> 8 word list option" where
  "parseIPv4Fields [] first val pos digLen fields =
     (if pos < 3 then None else Some (fields[3 := of_nat val]))"
| "parseIPv4Fields (c # cs) first val pos digLen fields =
     (if isDigit c then
        (if digLen = 1 \<and> val = 0 then None
         else let val' = val * 10 + (byte c - 48)
              in if val' > 255 then None
                 else parseIPv4Fields cs False val' pos (digLen + 1) fields)
      else if c = CHR ''.'' then
        (if first \<or> cs = [] then None
         else if pos = 3 then None
         else parseIPv4Fields cs True 0 (pos + 1) 0 (fields[pos := of_nat val]))
      else None)"

definition v4InV6Prefix :: "8 word list" where
  "v4InV6Prefix = [0, 0, 0, 0, 0, 0, 0, 0, 0, 0, 0xff, 0xff]"

definition parseIPv4 :: "string \<Rightarrow> 8 word list option" where
  "parseIPv4 s = map_option (\<lambda>fields. v4InV6Prefix @ fields)
     (parseIPv4Fields s True 0 0 0 [0, 0, 0, 0])"

text \<open>
  The hexadecimal number at the start of \<open>s\<close>: its value and its number of digits
  \<open>off\<close>; a fifth digit is an error.
\<close>

fun hexField :: "string \<Rightarrow> nat \<Rightarrow> nat \<Rightarrow> (nat \<times> nat) option" where
  "hexField [] off acc = Some (acc, off)"
| "hexField (c # cs) off acc =
     (case hexDigit c of
        None \<Rightarrow> Some (acc, off)
      | Some d \<Rightarrow>
          (let acc' = acc * 16 + d
           in if off > 3 then None
              else if acc' > 65535 then None
              else hexField cs (off + 1) acc'))"

text \<open>
  The loop of \<^verbatim>\<open>parseIPv6\<close> over the groups: \<open>s\<close> is the text left, \<open>ip\<close> the
  16 bytes, \<open>i\<close> the index of the next byte, \<open>ellipsis\<close> the position of
  \<^verbatim>\<open>::\<close>. The result is the state when the loop is left, \<open>None\<close> on an error.
\<close>

function parseIPv6_loop ::
  "string \<Rightarrow> 8 word list \<Rightarrow> nat \<Rightarrow> nat option \<Rightarrow>
     (string \<times> 8 word list \<times> nat \<times> nat option) option" where
  "parseIPv6_loop s ip i ellipsis =
     (if \<not> i < 16 then Some (s, ip, i, ellipsis)
      else case hexField s 0 0 of
        None \<Rightarrow> None
      | Some (acc, off) \<Rightarrow>
          if off = 0 then None
          else if off < length s \<and> s ! off = CHR ''.'' then
            (if ellipsis = None \<and> i \<noteq> 12 then None
             else if i + 4 > 16 then None
             else case parseIPv4Fields s True 0 0 0 [0, 0, 0, 0] of
                    None \<Rightarrow> None
                  | Some fields \<Rightarrow>
                      Some ([], take i ip @ fields @ drop (i + 4) ip, i + 4, ellipsis))
          else
            (let ip' = ip[i := of_nat (acc div 256), i + 1 := of_nat (acc mod 256)];
                 i' = i + 2;
                 s' = drop off s
             in if s' = [] then Some (s', ip', i', ellipsis)
                else if hd s' \<noteq> CHR '':'' then None
                else if length s' = 1 then None
                else if hd (tl s') = CHR '':'' then
                  (if ellipsis \<noteq> None then None
                   else if tl (tl s') = [] then Some ([], ip', i', Some i')
                   else parseIPv6_loop (tl (tl s')) ip' i' (Some i'))
                else parseIPv6_loop (tl s') ip' i' ellipsis))"
  by pat_completeness auto
termination
  by (relation "measure (\<lambda>(s, ip, i, e). 16 - i)") auto

declare parseIPv6_loop.simps [simp del]

text \<open>
  Expanding the ellipsis: the \<open>k\<close> bytes from \<open>ellipsis\<close> on move \<open>n\<close> places to the
  right, the last one first, and the gap is cleared.
\<close>

primrec expand_loop :: "8 word list \<Rightarrow> nat \<Rightarrow> nat \<Rightarrow> nat \<Rightarrow> 8 word list" where
  "expand_loop ip n ellipsis 0 = ip"
| "expand_loop ip n ellipsis (Suc k) =
     expand_loop (ip[ellipsis + k + n := ip ! (ellipsis + k)]) n ellipsis k"

definition clear :: "8 word list \<Rightarrow> nat \<Rightarrow> nat \<Rightarrow> 8 word list" where
  "clear ip lo hi = take lo ip @ replicate (hi - lo) 0 @ drop hi ip"

definition parseIPv6 :: "string \<Rightarrow> (8 word list \<times> string) option" where
  "parseIPv6 inp =
     (let (s, zone, bad) =
            (case IndexByte inp (CHR ''%'') of
               None \<Rightarrow> (inp, [], False)
             | Some k \<Rightarrow> (take k inp, drop (k + 1) inp, drop (k + 1) inp = []));
          ip = [0, 0, 0, 0, 0, 0, 0, 0, 0, 0, 0, 0, 0, 0, 0, 0]
      in if bad then None
         else
           (let lead = (length s \<ge> 2 \<and> s ! 0 = CHR '':'' \<and> s ! 1 = CHR '':'');
                ellipsis = (if lead then Some 0 else None);
                s = (if lead then drop 2 s else s)
            in if lead \<and> s = [] then Some (ip, zone)
               else case parseIPv6_loop s ip 0 ellipsis of
                 None \<Rightarrow> None
               | Some (s, ip, i, ellipsis) \<Rightarrow>
                   if s \<noteq> [] then None
                   else if i < 16 then
                     (case ellipsis of
                        None \<Rightarrow> None
                      | Some e \<Rightarrow>
                          (let n = 16 - i
                           in Some (clear (expand_loop ip n e (i - e)) e (e + n), zone)))
                   else if ellipsis \<noteq> None then None
                   else Some (ip, zone)))"

text \<open>
  \<^verbatim>\<open>netip.ParseAddr\<close>: the first of the bytes \<^verbatim>\<open>.\<close>, \<^verbatim>\<open>:\<close> and
  \<^verbatim>\<open>%\<close> in the text selects the parser. The result is the address in its 16-byte
  form and its zone.
\<close>

definition ParseAddr :: "string \<Rightarrow> (8 word list \<times> string) option" where
  "ParseAddr s =
     (case find (\<lambda>c. c = CHR ''.'' \<or> c = CHR '':'' \<or> c = CHR ''%'') s of
        None \<Rightarrow> None
      | Some c \<Rightarrow>
          if c = CHR ''.'' then map_option (\<lambda>ip. (ip, [])) (parseIPv4 s)
          else if c = CHR '':'' then parseIPv6 s
          else None)"

definition ParseIP :: "string \<Rightarrow> IP" where
  "ParseIP s =
     (case ParseAddr s of
        None \<Rightarrow> None
      | Some (ip, zone) \<Rightarrow> if zone \<noteq> [] then None else Some ip)"

text \<open>\<^verbatim>\<open>IP.To4\<close>, \<^verbatim>\<open>IP.To16\<close>, \<^verbatim>\<open>net.CIDRMask\<close> and \<^verbatim>\<open>IP.Mask\<close>.\<close>

definition To4 :: "IP \<Rightarrow> IP" where
  "To4 ip =
     (case ip of
        None \<Rightarrow> None
      | Some b \<Rightarrow>
          if length b = 4 then Some b
          else if length b = 16 \<and> list_all (\<lambda>x. x = 0) (take 10 b)
                  \<and> b ! 10 = 0xff \<and> b ! 11 = 0xff
          then Some (take 4 (drop 12 b))
          else None)"

definition To16 :: "IP \<Rightarrow> IP" where
  "To16 ip =
     (case ip of
        None \<Rightarrow> None
      | Some b \<Rightarrow>
          if length b = 4 then Some (v4InV6Prefix @ b)
          else if length b = 16 then Some b
          else None)"

fun CIDRMask_loop :: "nat \<Rightarrow> nat \<Rightarrow> 8 word list" where
  "CIDRMask_loop 0 n = []"
| "CIDRMask_loop (Suc l) n =
     (if n \<ge> 8 then 0xff # CIDRMask_loop l (n - 8)
      else NOT (drop_bit n 0xff) # CIDRMask_loop l 0)"

definition CIDRMask :: "int \<Rightarrow> int \<Rightarrow> 8 word list option" where
  "CIDRMask ones bits =
     (if bits \<noteq> 8 * 4 \<and> bits \<noteq> 8 * 16 then None
      else if ones < 0 \<or> ones > bits then None
      else Some (CIDRMask_loop (nat (bits div 8)) (nat ones)))"

definition Mask :: "IP \<Rightarrow> 8 word list option \<Rightarrow> IP" where
  "Mask ip msk =
     (let b = (case ip of None \<Rightarrow> [] | Some b \<Rightarrow> b);
          m = (case msk of None \<Rightarrow> [] | Some m \<Rightarrow> m);
          m = (if length m = 16 \<and> length b = 4 \<and> list_all (\<lambda>x. x = 0xff) (take 12 m)
               then drop 12 m else m);
          b = (if length m = 4 \<and> length b = 16 \<and> take 12 b = v4InV6Prefix
               then drop 12 b else b)
      in if length b \<noteq> length m then None
         else Some (map (\<lambda>(x, y). x AND y) (zip b m)))"

text \<open>
  \<^verbatim>\<open>IP.String\<close>: dotted decimal for an IPv4 address, else the groups in
  hexadecimal without leading zeros, the first longest run of two or more zero groups
  written \<^verbatim>\<open>::\<close>. \<^verbatim>\<open>strconv.Itoa\<close> writes an integer in decimal.
\<close>

definition digits :: "string" where
  "digits = ''0123456789abcdef''"

function decimal :: "nat \<Rightarrow> string" where
  "decimal n = (if n < 10 then [digits ! n] else decimal (n div 10) @ [digits ! (n mod 10)])"
  by pat_completeness auto
termination
  by (relation "measure id") auto

declare decimal.simps [simp del]

definition Itoa :: "int \<Rightarrow> string" where
  "Itoa i = (if i < 0 then CHR ''-'' # decimal (nat (- i)) else decimal (nat i))"

definition appendHex :: "string \<Rightarrow> nat \<Rightarrow> string" where
  "appendHex b x =
     (let b = (if x \<ge> 0x1000 then b @ [digits ! (x div 0x1000)] else b);
          b = (if x \<ge> 0x100 then b @ [digits ! (x div 0x100 mod 16)] else b);
          b = (if x \<ge> 0x10 then b @ [digits ! (x div 0x10 mod 16)] else b)
      in b @ [digits ! (x mod 16)])"

definition v6u16 :: "8 word list \<Rightarrow> nat \<Rightarrow> nat" where
  "v6u16 b i = unat (b ! (2 * i)) * 256 + unat (b ! (2 * i + 1))"

function zeroRun :: "8 word list \<Rightarrow> nat \<Rightarrow> nat" where
  "zeroRun b j = (if j < 8 \<and> v6u16 b j = 0 then zeroRun b (j + 1) else j)"
  by pat_completeness auto
termination
  by (relation "measure (\<lambda>(b, j). 8 - j)") auto

declare zeroRun.simps [simp del]

function longestZeros :: "8 word list \<Rightarrow> nat \<Rightarrow> nat \<Rightarrow> nat \<Rightarrow> nat \<times> nat" where
  "longestZeros b i zeroStart zeroEnd =
     (if i < 8 then
        (let j = zeroRun b i; l = j - i
         in if l \<ge> 2 \<and> l > zeroEnd - zeroStart then longestZeros b (i + 1) i j
            else longestZeros b (i + 1) zeroStart zeroEnd)
      else (zeroStart, zeroEnd))"
  by pat_completeness auto
termination
  by (relation "measure (\<lambda>(b, i, zs, ze). 8 - i)") auto

declare longestZeros.simps [simp del]

text \<open>
  The second loop of \<^verbatim>\<open>appendTo6\<close>. At \<open>zeroStart\<close> the index jumps to
  \<open>zeroEnd\<close>; every run that the first loop finds has \<open>zeroStart < zeroEnd\<close>, and the
  jump is taken under this condition, which makes the index grow in every step.
\<close>

function appendGroups :: "8 word list \<Rightarrow> nat \<Rightarrow> nat \<Rightarrow> nat \<Rightarrow> string \<Rightarrow> string" where
  "appendGroups b zeroStart zeroEnd i ret =
     (if i < 8 then
        (if i = zeroStart \<and> zeroStart < zeroEnd then
           (let ret = ret @ ''::''; i = zeroEnd
            in if i \<ge> 8 then ret
               else appendGroups b zeroStart zeroEnd (i + 1) (appendHex ret (v6u16 b i)))
         else
           (let ret = (if i > 0 then ret @ '':'' else ret)
            in appendGroups b zeroStart zeroEnd (i + 1) (appendHex ret (v6u16 b i))))
      else ret)"
  by pat_completeness auto
termination
  by (relation "measure (\<lambda>(b, zs, ze, i, ret). 8 - i)") auto

declare appendGroups.simps [simp del]

definition string6 :: "8 word list \<Rightarrow> string" where
  "string6 b = (case longestZeros b 0 255 255 of (zeroStart, zeroEnd) \<Rightarrow>
     appendGroups b zeroStart zeroEnd 0 [])"

definition string4 :: "8 word list \<Rightarrow> string" where
  "string4 b = decimal (unat (b ! 0)) @ ''.'' @ decimal (unat (b ! 1)) @ ''.'' @
     decimal (unat (b ! 2)) @ ''.'' @ decimal (unat (b ! 3))"

definition hexString :: "8 word list \<Rightarrow> string" where
  "hexString b = concat (map (\<lambda>x. [digits ! (unat x div 16), digits ! (unat x mod 16)]) b)"

definition IP_String :: "IP \<Rightarrow> string" where
  "IP_String ip =
     (case ip of
        None \<Rightarrow> ''<nil>''
      | Some b \<Rightarrow>
          if length b = 0 then ''<nil>''
          else if length b \<noteq> 4 \<and> length b \<noteq> 16 then ''?'' @ hexString b
          else (case To4 ip of
                  Some p4 \<Rightarrow> string4 p4
                | None \<Rightarrow> string6 b))"

section \<open>Durations: time.ParseDuration\<close>

text \<open>
  A \<^verbatim>\<open>time.Duration\<close> is a signed 64-bit count of nanoseconds, modelled as an
  \<^typ>\<open>int\<close>; the checks of \<^verbatim>\<open>ParseDuration\<close> keep it in range. The text is
  an optional sign and a sequence of terms, each a decimal number with an optional
  fraction and a unit.
\<close>

fun leadingInt :: "string \<Rightarrow> nat \<Rightarrow> (nat \<times> string) option" where
  "leadingInt [] x = Some (x, [])"
| "leadingInt (c # cs) x =
     (if \<not> isDigit c then Some (x, c # cs)
      else if x > 2 ^ 63 div 10 then None
      else let x' = x * 10 + (byte c - 48)
           in if x' > 2 ^ 63 then None else leadingInt cs x')"

fun leadingFraction :: "string \<Rightarrow> nat \<Rightarrow> nat \<Rightarrow> bool \<Rightarrow> nat \<times> nat \<times> string" where
  "leadingFraction [] x scale overflow = (x, scale, [])"
| "leadingFraction (c # cs) x scale overflow =
     (if \<not> isDigit c then (x, scale, c # cs)
      else if overflow then leadingFraction cs x scale overflow
      else if x > (2 ^ 63 - 1) div 10 then leadingFraction cs x scale True
      else let y = x * 10 + (byte c - 48)
           in if y > 2 ^ 63 then leadingFraction cs x scale True
              else leadingFraction cs y (scale * 10) overflow)"

definition unitMap :: "(string \<times> nat) list" where
  "unitMap =
     [(''ns'', 1), (''us'', 1000), ([CHR 0xC2, CHR 0xB5, CHR ''s''], 1000),
      ([CHR 0xCE, CHR 0xBC, CHR ''s''], 1000), (''ms'', 1000000), (''s'', 1000000000),
      (''m'', 60000000000), (''h'', 3600000000000)]"

text \<open>
  The fraction \<open>f / scale\<close> of a unit is added as
  \<^verbatim>\<open>uint64(float64(f) * (float64(unit) / scale))\<close>. \<open>float64 p q\<close> is the
  double nearest to \<open>p / q\<close> (ties to even), as a mantissa of 53 bits and an
  exponent of two; the numbers that occur here are in the normal range.
\<close>

function bitlen :: "nat \<Rightarrow> nat" where
  "bitlen n = (if n = 0 then 0 else Suc (bitlen (n div 2)))"
  by pat_completeness auto
termination
  by (relation "measure id") auto

declare bitlen.simps [simp del]

definition roundEven :: "nat \<Rightarrow> nat \<Rightarrow> nat" where
  "roundEven p q =
     (let n = p div q; r = p mod q
      in if 2 * r < q then n
         else if 2 * r > q then n + 1
         else if even n then n else n + 1)"

definition float64 :: "nat \<Rightarrow> nat \<Rightarrow> nat \<times> int" where
  "float64 p q =
     (let k = int (bitlen p) - int (bitlen q);
          e = (if (if k \<ge> 0 then p \<ge> q * 2 ^ nat k else p * 2 ^ nat (- k) \<ge> q)
               then k else k - 1) - 52
      in (if e \<ge> 0 then roundEven p (q * 2 ^ nat e) else roundEven (p * 2 ^ nat (- e)) q, e))"

definition fractionNanos :: "nat \<Rightarrow> nat \<Rightarrow> nat \<Rightarrow> nat" where
  "fractionNanos f unit scale =
     (case float64 f 1 of (m1, e1) \<Rightarrow>
      case float64 unit scale of (m2, e2) \<Rightarrow>
      case (if e1 + e2 \<ge> 0 then float64 (m1 * m2 * 2 ^ nat (e1 + e2)) 1
            else float64 (m1 * m2) (2 ^ nat (- (e1 + e2)))) of (m, e) \<Rightarrow>
        if e \<ge> 0 then m * 2 ^ nat e else m div 2 ^ nat (- e))"

text \<open>
  One term of the duration at the start of \<open>s\<close> (one pass through the loop of
  \<^verbatim>\<open>ParseDuration\<close>): its nanoseconds and the text after it.
\<close>

definition durationTerm :: "string \<Rightarrow> (nat \<times> string) option" where
  "durationTerm s =
     (if \<not> (hd s = CHR ''.'' \<or> isDigit (hd s)) then None
      else case leadingInt s 0 of
        None \<Rightarrow> None
      | Some (v, s1) \<Rightarrow>
          (let pre = (length s \<noteq> length s1);
               (f, scale, s2) =
                  (if s1 \<noteq> [] \<and> hd s1 = CHR ''.'' then leadingFraction (tl s1) 0 1 False
                   else (0, 1, s1));
               post = (s1 \<noteq> [] \<and> hd s1 = CHR ''.'' \<and> length (tl s1) \<noteq> length s2)
           in if \<not> pre \<and> \<not> post then None
              else
                (let i = length (takeWhile (\<lambda>c. \<not> (c = CHR ''.'' \<or> isDigit c)) s2)
                 in if i = 0 then None
                    else case map_of unitMap (take i s2) of
                      None \<Rightarrow> None
                    | Some unit \<Rightarrow>
                        if v > 2 ^ 63 div unit then None
                        else
                          (let v = v * unit;
                               v = (if f > 0 then v + fractionNanos f unit scale else v)
                           in if f > 0 \<and> v > 2 ^ 63 then None
                              else Some (v, drop i s2)))))"

lemma leadingInt_length: "leadingInt s x = Some (v, r) \<Longrightarrow> length r \<le> length s"
  by (induction s x rule: leadingInt.induct) (auto simp: Let_def isDigit_def split: if_splits)

lemma leadingFraction_length:
  "leadingFraction s x sc ov = (f, sc', r) \<Longrightarrow> length r \<le> length s"
  by (induction s x sc ov rule: leadingFraction.induct)
    (auto simp: Let_def isDigit_def split: if_splits)

lemma durationTerm_shorter:
  assumes "durationTerm s = Some (v, r)"
  shows "length r < length s"
proof -
  from assms obtain v0 s1 where li: "leadingInt s 0 = Some (v0, s1)"
    unfolding durationTerm_def by (auto split: if_splits option.splits)
  obtain f scale s2 where fr:
    "(if s1 \<noteq> [] \<and> hd s1 = CHR ''.'' then leadingFraction (tl s1) 0 1 False
      else (0, 1, s1)) = (f, scale, s2)"
    by (metis prod_cases3)
  define i where "i = length (takeWhile (\<lambda>c. \<not> (c = CHR ''.'' \<or> isDigit c)) s2)"
  have r: "r = drop i s2" and i: "i \<noteq> 0"
    using assms li fr unfolding durationTerm_def i_def
    by (auto simp: Let_def split: if_splits option.splits)
  have "length s1 \<le> length s" using li by (rule leadingInt_length)
  moreover have "length s2 \<le> length s1"
    using fr by (auto split: if_splits dest!: leadingFraction_length)
  moreover have "i \<le> length s2" unfolding i_def by (rule length_takeWhile_le)
  ultimately show ?thesis using r i by auto
qed

function ParseDuration_loop :: "string \<Rightarrow> nat \<Rightarrow> nat option" where
  "ParseDuration_loop s d =
     (if s = [] then Some d
      else case durationTerm s of
        None \<Rightarrow> None
      | Some (v, s') \<Rightarrow>
          (let d = (d + v) mod 2 ^ 64
           in if d > 2 ^ 63 then None else ParseDuration_loop s' d))"
  by pat_completeness auto
termination
  by (relation "measure (\<lambda>(s, d). length s)") (auto dest: durationTerm_shorter)

declare ParseDuration_loop.simps [simp del]

definition ParseDuration :: "string \<Rightarrow> error + int" where
  "ParseDuration orig =
     (let signed = (orig \<noteq> [] \<and> (hd orig = CHR ''-'' \<or> hd orig = CHR ''+''));
          neg = (signed \<and> hd orig = CHR ''-'');
          s = (if signed then tl orig else orig)
      in if s = ''0'' then Inr 0
         else if s = [] then Inl (DurationError orig)
         else case ParseDuration_loop s 0 of
           None \<Rightarrow> Inl (DurationError orig)
         | Some d \<Rightarrow>
             if neg then Inr (- int d)
             else if d > 2 ^ 63 - 1 then Inl (DurationError orig)
             else Inr (int d))"

section \<open>Configuration and construction\<close>

definition providerCloudflare :: string where "providerCloudflare = ''cloudflare''"
definition providerFastly :: string where "providerFastly = ''fastly''"
definition providerCloudfront :: string where "providerCloudfront = ''cloudfront''"
definition providerCustom :: string where "providerCustom = ''custom''"
definition awsCloudfrontLabel :: string where "awsCloudfrontLabel = ''CLOUDFRONT''"
definition defaultPollInterval :: string where "defaultPollInterval = ''300s''"

text \<open>The keys of the map \<^verbatim>\<open>supportedProviders\<close>.\<close>

definition supportedProviders :: "string list" where
  "supportedProviders = [providerCloudflare, providerFastly, providerCloudfront, providerCustom]"

record IPStrategy =
  Depth :: int
  ExcludedIPs :: "string list"

record Config =
  Provider :: string
  PollInterval :: string
  IPv4Resolver :: string
  IPv6Resolver :: string
  WhitelistIPv6 :: bool
  AdditionalSourceRange :: "string list"
  IPStrategy :: IPStrategy

definition CreateConfig :: Config where
  "CreateConfig =
     \<lparr>Provider = [], PollInterval = defaultPollInterval,
      IPv4Resolver = ''https://api4.ipify.org/?format=text'',
      IPv6Resolver = ''https://api6.ipify.org/?format=text'',
      WhitelistIPv6 = False, AdditionalSourceRange = [],
      IPStrategy = \<lparr>Depth = 0, ExcludedIPs = []\<rparr>\<rparr>"

text \<open>
  The struct \<^verbatim>\<open>Provider\<close>. Its field \<^verbatim>\<open>httpGet\<close> is the getter of the
  process's HTTP client; the operations that fetch take it as their argument \<open>g\<close>.
  The field \<^verbatim>\<open>cancel\<close> belongs to the scheduler.
\<close>

record Provider =
  name :: string
  providerName :: string
  pollInterval :: int
  ipv4Resolver :: string
  ipv6Resolver :: string
  whitelistIPv6 :: bool
  additionalSourceRange :: "string list"
  ipStrategy :: IPStrategy

definition normalizeProviderName :: "string \<Rightarrow> string" where
  "normalizeProviderName nm = ToLower (TrimSpace nm)"

definition New :: "Config \<Rightarrow> string \<Rightarrow> error + Provider" where
  "New config nm =
     (let pollInterval =
            (if TrimSpace (PollInterval config) = [] then defaultPollInterval
             else PollInterval config)
      in case ParseDuration pollInterval of
           Inl err \<Rightarrow> Inl err
         | Inr pi \<Rightarrow>
             (let providerName = normalizeProviderName (Provider config)
              in if providerName = [] then Inl ProviderRequired
                 else if providerName \<notin> set supportedProviders
                 then Inl (UnsupportedProvider (Provider config))
                 else if providerName = providerCustom \<and> TrimSpace (IPv4Resolver config) = []
                 then Inl MissingIPv4Resolver
                 else if providerName = providerCustom \<and> WhitelistIPv6 config
                         \<and> TrimSpace (IPv6Resolver config) = []
                 then Inl MissingIPv6Resolver
                 else Inr \<lparr>name = nm, providerName = providerName, pollInterval = pi,
                           ipv4Resolver = IPv4Resolver config,
                           ipv6Resolver = IPv6Resolver config,
                           whitelistIPv6 = WhitelistIPv6 config,
                           additionalSourceRange = [] @ AdditionalSourceRange config,
                           ipStrategy = IPStrategy config\<rparr>))"

text \<open>\<^verbatim>\<open>Init\<close> returns an error or \<^verbatim>\<open>nil\<close> (\<open>None\<close>).\<close>

definition Init :: "Provider \<Rightarrow> error option" where
  "Init p = (if pollInterval p \<le> 0 then Some PollIntervalNotPositive else None)"

section \<open>Address normalizer\<close>

definition ipv6ToCIDR :: "string \<Rightarrow> error + string" where
  "ipv6ToCIDR ipv6 =
     (let MaskSize = 64;
          ip = ParseIP ipv6
      in if To4 ip \<noteq> None then Inl (NotIPv6Address ipv6)
         else
           (let ip = To16 ip
            in if ip = None then Inl (NotIPv6Address ipv6)
               else Inr (IP_String (Mask ip (CIDRMask MaskSize 128)) @ ''/'' @ Itoa MaskSize)))"

section \<open>Payload parsers\<close>

text \<open>
  \<^verbatim>\<open>parseLineList\<close>: the loop over the lines appends every line that is not
  empty after trimming to \<open>results\<close>.
\<close>

fun parseLineList_loop :: "string list \<Rightarrow> string list \<Rightarrow> string list" where
  "parseLineList_loop [] results = results"
| "parseLineList_loop (line # lines) results =
     (let line' = TrimSpace line
      in if line' = [] then parseLineList_loop lines results
         else parseLineList_loop lines (results @ [line']))"

definition parseLineList :: "string \<Rightarrow> string list" where
  "parseLineList data = parseLineList_loop (Split data (CHR 0x0A)) []"

section \<open>Provider strategies\<close>

text \<open>
  The HTTP getter answers a URL with an error or the body, and may change the world
  \<open>'w\<close> it talks to. The package-level endpoint variables and the decoding of the two
  JSON payloads by \<^verbatim>\<open>json.Unmarshal\<close> are the fields of \<open>Env\<close>. A decoded
  array that is absent or \<^verbatim>\<open>null\<close> is the empty list. One record of the
  CloudFront arrays holds its prefix (\<^verbatim>\<open>ip_prefix\<close> or \<^verbatim>\<open>ipv6_prefix\<close>)
  and its service.
\<close>

type_synonym 'w httpGetter = "string \<Rightarrow> 'w \<Rightarrow> (string + string) \<times> 'w"

record FastlyPayload =
  Addresses :: "string list"
  IPv6Addresses :: "string list"

record PrefixRecord =
  Prefix :: string
  Service :: string

record CloudfrontPayload =
  Prefixes :: "PrefixRecord list"
  IPv6Prefixes :: "PrefixRecord list"

record Env =
  cloudflareIPv4Endpoint :: string
  cloudflareIPv6Endpoint :: string
  fastlyEndpoint :: string
  awsIPRangesEndpoint :: string
  unmarshalFastly :: "string \<Rightarrow> string + FastlyPayload"
  unmarshalCloudfront :: "string \<Rightarrow> string + CloudfrontPayload"

definition fetchCloudflareRanges ::
  "'w httpGetter \<Rightarrow> Env \<Rightarrow> Provider \<Rightarrow> 'w \<Rightarrow> (error + string list) \<times> 'w" where
  "fetchCloudflareRanges g env p w =
     (case g (cloudflareIPv4Endpoint env) w of
        (Inl err, w1) \<Rightarrow> (Inl (HTTPError err), w1)
      | (Inr body, w1) \<Rightarrow>
          (let ranges = parseLineList body
           in if length ranges = 0 then (Inl CloudflareEmpty, w1)
              else if whitelistIPv6 p then
                (case g (cloudflareIPv6Endpoint env) w1 of
                   (Inl err, w2) \<Rightarrow> (Inl (HTTPError err), w2)
                 | (Inr body6, w2) \<Rightarrow> (Inr (ranges @ parseLineList body6), w2))
              else (Inr ranges, w1)))"

definition fetchFastlyRanges ::
  "'w httpGetter \<Rightarrow> Env \<Rightarrow> Provider \<Rightarrow> 'w \<Rightarrow> (error + string list) \<times> 'w" where
  "fetchFastlyRanges g env p w =
     (case g (fastlyEndpoint env) w of
        (Inl err, w1) \<Rightarrow> (Inl (HTTPError err), w1)
      | (Inr body, w1) \<Rightarrow>
          (case unmarshalFastly env body of
             Inl err \<Rightarrow> (Inl (FastlyJSON err), w1)
           | Inr payload \<Rightarrow>
               (let ranges = [] @ Addresses payload
                in if length ranges = 0 then (Inl FastlyEmpty, w1)
                   else if whitelistIPv6 p then (Inr (ranges @ IPv6Addresses payload), w1)
                   else (Inr ranges, w1))))"

text \<open>The two loops of \<^verbatim>\<open>fetchCloudfrontRanges\<close> over the prefix records.\<close>

fun cloudfront_loop :: "PrefixRecord list \<Rightarrow> string list \<Rightarrow> string list" where
  "cloudfront_loop [] ranges = ranges"
| "cloudfront_loop (rec # recs) ranges =
     (if Service rec = awsCloudfrontLabel
      then cloudfront_loop recs (ranges @ [TrimSpace (Prefix rec)])
      else cloudfront_loop recs ranges)"

definition fetchCloudfrontRanges ::
  "'w httpGetter \<Rightarrow> Env \<Rightarrow> Provider \<Rightarrow> 'w \<Rightarrow> (error + string list) \<times> 'w" where
  "fetchCloudfrontRanges g env p w =
     (case g (awsIPRangesEndpoint env) w of
        (Inl err, w1) \<Rightarrow> (Inl (HTTPError err), w1)
      | (Inr body, w1) \<Rightarrow>
          (case unmarshalCloudfront env body of
             Inl err \<Rightarrow> (Inl (CloudfrontJSON err), w1)
           | Inr payload \<Rightarrow>
               (let ranges = cloudfront_loop (Prefixes payload) []
                in if length ranges = 0 then (Inl CloudfrontEmpty, w1)
                   else if whitelistIPv6 p
                   then (Inr (cloudfront_loop (IPv6Prefixes payload) ranges), w1)
                   else (Inr ranges, w1))))"

definition fetchCustomRanges ::
  "'w httpGetter \<Rightarrow> Provider \<Rightarrow> 'w \<Rightarrow> (error + string list) \<times> 'w" where
  "fetchCustomRanges g p w =
     (if TrimSpace (ipv4Resolver p) = [] then (Inl MissingIPv4Resolver, w)
      else case g (ipv4Resolver p) w of
        (Inl err, w1) \<Rightarrow> (Inl (HTTPError err), w1)
      | (Inr body, w1) \<Rightarrow>
          (let ipv4 = TrimSpace body
           in if ParseIP ipv4 = None then (Inl InvalidIPv4Response, w1)
              else
                (let ranges = [ipv4]
                 in if whitelistIPv6 p then
                      (if TrimSpace (ipv6Resolver p) = [] then (Inl MissingIPv6Resolver, w1)
                       else case g (ipv6Resolver p) w1 of
                         (Inl err, w2) \<Rightarrow> (Inl (HTTPError err), w2)
                       | (Inr body6, w2) \<Rightarrow>
                           (let ipv6 = TrimSpace body6
                            in if ParseIP ipv6 = None then (Inl InvalidIPv6Response, w2)
                               else case ipv6ToCIDR ipv6 of
                                 Inl err \<Rightarrow> (Inl err, w2)
                               | Inr ipv6CIDR \<Rightarrow> (Inr (ranges @ [ipv6CIDR]), w2)))
                    else (Inr ranges, w1))))"

definition fetchProviderRanges ::
  "'w httpGetter \<Rightarrow> Env \<Rightarrow> Provider \<Rightarrow> 'w \<Rightarrow> (error + string list) \<times> 'w" where
  "fetchProviderRanges g env p w =
     (if providerName p = providerCloudflare then fetchCloudflareRanges g env p w
      else if providerName p = providerFastly then fetchFastlyRanges g env p w
      else if providerName p = providerCloudfront then fetchCloudfrontRanges g env p w
      else if providerName p = providerCustom then fetchCustomRanges g p w
      else (Inl (UnsupportedProvider (providerName p)), w))"

section \<open>Aggregator and configuration emitter\<close>

definition buildSourceRanges ::
  "'w httpGetter \<Rightarrow> Env \<Rightarrow> Provider \<Rightarrow> 'w \<Rightarrow> (error + string list) \<times> 'w" where
  "buildSourceRanges g env p w =
     (case fetchProviderRanges g env p w of
        (Inl err, w1) \<Rightarrow> (Inl err, w1)
      | (Inr providerRanges, w1) \<Rightarrow>
          (let sourceRange = [] @ additionalSourceRange p;
               sourceRange = sourceRange @ providerRanges
           in if length sourceRange = 0 then (Inl NoRangesResolved, w1)
              else (Inr sourceRange, w1)))"

text \<open>
  The produced \<^verbatim>\<open>dynamic.Configuration\<close>: the table of HTTP middlewares holds the
  one entry \<^verbatim>\<open>public_ipwhitelist\<close>. The other tables (HTTP routers, services and
  serversTransports, and the TCP, TLS and UDP tables) are made empty and never
  written; they are left out.
\<close>

record IPWhiteList =
  SourceRange :: "string list"
  Strategy :: IPStrategy

record Configuration =
  Middlewares :: "(string \<times> IPWhiteList) list"

definition generateConfiguration ::
  "'w httpGetter \<Rightarrow> Env \<Rightarrow> Provider \<Rightarrow> 'w \<Rightarrow> (error + Configuration) \<times> 'w" where
  "generateConfiguration g env p w =
     (case buildSourceRanges g env p w of
        (Inl err, w1) \<Rightarrow> (Inl err, w1)
      | (Inr sourceRange, w1) \<Rightarrow>
          (Inr \<lparr>Middlewares =
                  [(''public_ipwhitelist'',
                    \<lparr>SourceRange = sourceRange,
                     Strategy = \<lparr>Depth = Depth (ipStrategy p),
                                 ExcludedIPs = ExcludedIPs (ipStrategy p)\<rparr>\<rparr>)]\<rparr>, w1))"

text \<open>
  The state of a run: the world of the getter, the payloads sent on the delivery
  channel \<^verbatim>\<open>cfgChan\<close> so far (the send blocks until the consumer takes the value),
  and the errors written to the log.
\<close>

record 'w RunState =
  world :: 'w
  cfgChan :: "Configuration list"
  logged :: "error list"

definition emitConfiguration ::
  "'w httpGetter \<Rightarrow> Env \<Rightarrow> Provider \<Rightarrow> 'w RunState \<Rightarrow> 'w RunState" where
  "emitConfiguration g env p st =
     (case generateConfiguration g env p (world st) of
        (Inl err, w1) \<Rightarrow> st\<lparr>world := w1, logged := logged st @ [err]\<rparr>
      | (Inr configuration, w1) \<Rightarrow> st\<lparr>world := w1, cfgChan := cfgChan st @ [configuration]\<rparr>)"

text \<open>
  The scheduler: one refresh at once, then one refresh for every tick of the ticker,
  until the context is done. The list holds the events that the \<^verbatim>\<open>select\<close>
  receives, in their order; the result is the state when the loop returns or when
  the events are used up.
\<close>

datatype event = Tick | Done

fun loadConfiguration_loop ::
  "'w httpGetter \<Rightarrow> Env \<Rightarrow> Provider \<Rightarrow> event list \<Rightarrow> 'w RunState \<Rightarrow> 'w RunState" where
  "loadConfiguration_loop g env p [] st = st"
| "loadConfiguration_loop g env p (Tick # evs) st =
     loadConfiguration_loop g env p evs (emitConfiguration g env p st)"
| "loadConfiguration_loop g env p (Done # evs) st = st"

definition loadConfiguration ::
  "'w httpGetter \<Rightarrow> Env \<Rightarrow> Provider \<Rightarrow> event list \<Rightarrow> 'w RunState \<Rightarrow> 'w RunState" where
  "loadConfiguration g env p evs st =
     loadConfiguration_loop g env p evs (emitConfiguration g env p st)"

text \<open>
  A getter that records the URLs it is asked for: the world is paired with the list
  of the requests made so far.
\<close>

definition recording :: "'w httpGetter \<Rightarrow> ('w \<times> string list) httpGetter" where
  "recording g url = (\<lambda>(w, urls). case g url w of (r, w') \<Rightarrow> (r, (w', urls @ [url])))"

section \<open>Notions of the statements\<close>

text \<open>
  The interval text that \<^verbatim>\<open>New\<close> parses (the default for a blank one), and the
  checks of \<^verbatim>\<open>New\<close> on the provider and the resolvers, taken together.
\<close>

definition intervalText :: "Config \<Rightarrow> string" where
  "intervalText config =
     (if TrimSpace (PollInterval config) = [] then defaultPollInterval else PollInterval config)"

definition providerSettingsOK :: "Config \<Rightarrow> bool" where
  "providerSettingsOK config \<longleftrightarrow>
     normalizeProviderName (Provider config) \<in> set supportedProviders \<and>
     (normalizeProviderName (Provider config) = providerCustom \<longrightarrow>
        TrimSpace (IPv4Resolver config) \<noteq> [] \<and>
        (WhitelistIPv6 config \<longrightarrow> TrimSpace (IPv6Resolver config) \<noteq> []))"

section \<open>Properties\<close>

lemma parseLineList_loop_filter:
  "parseLineList_loop ls acc = acc @ filter (\<lambda>l. l \<noteq> []) (map TrimSpace ls)"
  by (induction ls arbitrary: acc) (simp_all add: Let_def)

subsection \<open>Line-list parser\<close>

lemma trimLeftRunes_suffix: "suffix (trimLeftRunes ts s) s"
proof (induction ts s rule: trimLeftRunes.induct)
  case (1 ts s)
  show ?case
  proof (cases "leadingRune ts s")
    case None
    then show ?thesis by (simp add: trimLeftRunes.simps)
  next
    case (Some t)
    with 1 have "suffix (trimLeftRunes ts (drop (length t) s)) (drop (length t) s)" by simp
    then have "suffix (trimLeftRunes ts (drop (length t) s)) s"
      using suffix_drop suffix_order.trans by blast
    with Some show ?thesis by (simp add: trimLeftRunes.simps)
  qed
qed

lemma trimLeftRunes_done: "leadingRune ts (trimLeftRunes ts s) = None"
proof (induction ts s rule: trimLeftRunes.induct)
  case (1 ts s)
  then show ?case by (cases "leadingRune ts s") (simp_all add: trimLeftRunes.simps)
qed

lemma leadingRune_prefix:
  "prefix s' s \<Longrightarrow> leadingRune ts s = None \<Longrightarrow> leadingRune ts s' = None"
  unfolding leadingRune_def find_None_iff using prefix_order.trans by blast

lemma TrimSpace_trimmed:
  "leadingRune spaceRunes (TrimSpace s) = None \<and>
   leadingRune (map rev spaceRunes) (rev (TrimSpace s)) = None"
proof
  have "suffix (rev (TrimSpace s)) (rev (TrimLeftSpace s))"
    unfolding TrimSpace_def TrimRightSpace_def by (simp add: trimLeftRunes_suffix)
  then have "prefix (TrimSpace s) (TrimLeftSpace s)"
    by (simp add: suffix_to_prefix)
  moreover have "leadingRune spaceRunes (TrimLeftSpace s) = None"
    unfolding TrimLeftSpace_def by (rule trimLeftRunes_done)
  ultimately show "leadingRune spaceRunes (TrimSpace s) = None"
    by (rule leadingRune_prefix)
  show "leadingRune (map rev spaceRunes) (rev (TrimSpace s)) = None"
    unfolding TrimSpace_def TrimRightSpace_def by (simp add: trimLeftRunes_done)
qed

lemma IndexByte_None: "IndexByte s c = None \<longleftrightarrow> c \<notin> set s"
  by (induction s) auto

lemma IndexByte_Some:
  "IndexByte s c = Some m \<Longrightarrow> m < length s \<and> s ! m = c \<and> c \<notin> set (take m s)"
proof (induction s arbitrary: m)
  case Nil
  then show ?case by simp
next
  case (Cons x xs)
  then show ?case by (cases m) (auto split: if_splits)
qed

lemma Split_nonempty: "Split s c \<noteq> []"
  by (subst Split.simps) (simp split: option.split)

lemma Join_Cons: "ps \<noteq> [] \<Longrightarrow> Join (p # ps) c = p @ c # Join ps c"
  by (cases ps) simp_all

lemma Join_Split: "Join (Split s c) c = s"
proof (induction s c rule: Split.induct)
  case (1 s sep)
  show ?case
  proof (cases "IndexByte s sep")
    case None
    then show ?thesis by (subst Split.simps) simp
  next
    case (Some m)
    then have m: "m < length s" "s ! m = sep" using IndexByte_Some by auto
    have "Join (Split s sep) sep = take m s @ sep # Join (Split (drop (m + 1) s) sep) sep"
      using Some by (subst Split.simps) (simp add: Join_Cons Split_nonempty)
    also have "\<dots> = take m s @ sep # drop (m + 1) s" using 1 Some by simp
    also have "\<dots> = s" using m by (metis Cons_nth_drop_Suc Suc_eq_plus1 append_take_drop_id)
    finally show ?thesis .
  qed
qed

lemma Split_pieces: "l \<in> set (Split s c) \<Longrightarrow> c \<notin> set l"
proof (induction s c arbitrary: l rule: Split.induct)
  case (1 s sep)
  show ?case
  proof (cases "IndexByte s sep")
    case None
    with 1(2) have "l = s" by (subst (asm) Split.simps) simp
    with None show ?thesis by (simp add: IndexByte_None)
  next
    case (Some m)
    with 1(2) have "l = take m s \<or> l \<in> set (Split (drop (m + 1) s) sep)"
      by (subst (asm) Split.simps) simp
    then show ?thesis using 1(1)[OF Some] IndexByte_Some[OF Some] by auto
  qed
qed

lemmas trim_eval = TrimSpace_def TrimLeftSpace_def TrimRightSpace_def leadingRune_def
  spaceRunes_def asciiSpace_def trimLeftRunes.simps

lemma parseLineList_example:
  "parseLineList (''198.51.100.0/24'' @ [CHR 0x0A] @ ''203.0.113.0/25'' @ [CHR 0x0A, CHR 0x0A])
     = [''198.51.100.0/24'', ''203.0.113.0/25'']"
  by (simp add: parseLineList_def Split.simps trim_eval)

text \<open>
  C7. For every input, \<^verbatim>\<open>parseLineList\<close> splits the data at the newlines (the
  pieces joined by newlines are the data, and no piece holds a newline), trims every
  piece, drops the pieces that are empty after trimming and keeps the order of the
  others: the result is the list of the trimmed pieces, filtered. No line of the
  result is empty or starts or ends with white space. The data
  \<^verbatim>\<open>"198.51.100.0/24\n203.0.113.0/25\n\n"\<close> yields the two ranges.
\<close>

theorem parseLineList_lines:
  "parseLineList data = filter (\<lambda>l. l \<noteq> []) (map TrimSpace (Split data (CHR 0x0A)))
   \<and> Join (Split data (CHR 0x0A)) (CHR 0x0A) = data
   \<and> (\<forall>l \<in> set (Split data (CHR 0x0A)). CHR 0x0A \<notin> set l)
   \<and> (\<forall>l \<in> set (parseLineList data). l \<noteq> [] \<and> leadingRune spaceRunes l = None
          \<and> leadingRune (map rev spaceRunes) (rev l) = None)
   \<and> parseLineList
        (''198.51.100.0/24'' @ [CHR 0x0A] @ ''203.0.113.0/25'' @ [CHR 0x0A, CHR 0x0A])
       = [''198.51.100.0/24'', ''203.0.113.0/25'']"
proof -
  have eq: "parseLineList data = filter (\<lambda>l. l \<noteq> []) (map TrimSpace (Split data (CHR 0x0A)))"
    by (simp add: parseLineList_def parseLineList_loop_filter)
  moreover have "\<forall>l \<in> set (parseLineList data). l \<noteq> [] \<and> leadingRune spaceRunes l = None
          \<and> leadingRune (map rev spaceRunes) (rev l) = None"
    unfolding eq using TrimSpace_trimmed by auto
  ultimately show ?thesis
    using Join_Split Split_pieces parseLineList_example by blast
qed

theorem parseLineList_lines_witness:
  "parseLineList ('' 10.0.0.0/8 '' @ [CHR 0x0A, CHR 0x0D, CHR 0x0A] @ ''fd00::/8'') = [''10.0.0.0/8'', ''fd00::/8'']"
  using parseLineList_lines [of "'' 10.0.0.0/8 '' @ [CHR 0x0A, CHR 0x0D, CHR 0x0A] @ ''fd00::/8''"]
  by (simp add: Split.simps trim_eval)

subsection \<open>Construction\<close>

lemma New_cases:
  "New config nm =
     (case ParseDuration (intervalText config) of
        Inl err \<Rightarrow> Inl err
      | Inr d \<Rightarrow>
          if providerSettingsOK config
          then Inr \<lparr>name = nm, providerName = normalizeProviderName (Provider config),
                    pollInterval = d, ipv4Resolver = IPv4Resolver config,
                    ipv6Resolver = IPv6Resolver config, whitelistIPv6 = WhitelistIPv6 config,
                    additionalSourceRange = AdditionalSourceRange config,
                    ipStrategy = IPStrategy config\<rparr>
          else if normalizeProviderName (Provider config) = [] then Inl ProviderRequired
          else if normalizeProviderName (Provider config) \<notin> set supportedProviders
          then Inl (UnsupportedProvider (Provider config))
          else if TrimSpace (IPv4Resolver config) = [] then Inl MissingIPv4Resolver
          else Inl MissingIPv6Resolver)"
  by (auto simp: New_def intervalText_def providerSettingsOK_def Let_def supportedProviders_def
      providerCloudflare_def providerFastly_def providerCloudfront_def providerCustom_def
      split: sum.splits)

lemmas duration_eval = ParseDuration_def ParseDuration_loop.simps durationTerm_def isDigit_def
  byte_def Let_def unitMap_def

lemmas provider_eval = normalizeProviderName_def ToLower_def lowerByte_def byte_def
  supportedProviders_def providerCloudflare_def providerFastly_def providerCloudfront_def
  providerCustom_def

lemma ParseDuration_300s: "ParseDuration ''300s'' = Inr 300000000000"
  by (simp add: duration_eval)

lemma ParseDuration_0s: "ParseDuration ''0s'' = Inr 0"
  by (simp add: duration_eval)

lemma ParseDuration_minus5s: "ParseDuration ''-5s'' = Inr (- 5000000000)"
  by (simp add: duration_eval)

lemmas New_eval = New_def Let_def CreateConfig_def defaultPollInterval_def provider_eval
  trim_eval char_of_def bit_Suc_0_iff

lemma ParseDuration_1s: "ParseDuration ''1s'' = Inr 1000000000"
  by (simp add: duration_eval)

lemma intervalText_1s: "intervalText (config\<lparr>PollInterval := ''1s''\<rparr>) = ''1s''"
  by (simp add: intervalText_def trim_eval)

lemma providerSettingsOK_PollInterval:
  "providerSettingsOK (config\<lparr>PollInterval := x\<rparr>) = providerSettingsOK config"
  by (simp add: providerSettingsOK_def)

text \<open>
  C5 (amended). For every configuration whose interval text parses,
  \<^verbatim>\<open>New\<close> succeeds if and only if the provider field, trimmed of surrounding white
  space and lowered, is one of the four identifiers and, for the custom provider, the
  IPv4 resolver is not blank (not empty after trimming) and the IPv6 resolver is not
  blank whenever \<^verbatim>\<open>whitelistIPv6\<close> is set.
\<close>

theorem New_succeeds_iff:
  "ParseDuration (intervalText config) = Inr d \<Longrightarrow>
   (\<exists>p. New config nm = Inr p) \<longleftrightarrow>
     ToLower (TrimSpace (Provider config))
        \<in> {providerCloudflare, providerFastly, providerCloudfront, providerCustom} \<and>
     (ToLower (TrimSpace (Provider config)) = providerCustom \<longrightarrow>
        TrimSpace (IPv4Resolver config) \<noteq> [] \<and>
        (WhitelistIPv6 config \<longrightarrow> TrimSpace (IPv6Resolver config) \<noteq> []))"
  by (simp add: New_cases providerSettingsOK_def normalizeProviderName_def
      supportedProviders_def)

theorem New_succeeds_iff_witness:
  "\<exists>p. New (CreateConfig\<lparr>Provider := '' CloudFlare''\<rparr>) ''test'' = Inr p"
  using New_succeeds_iff [of "CreateConfig\<lparr>Provider := '' CloudFlare''\<rparr>" 300000000000 "''test''"]
  by (simp add: intervalText_def CreateConfig_def defaultPollInterval_def ParseDuration_300s
      provider_eval trim_eval char_of_def bit_Suc_0_iff)

text \<open>
  The claim without the trimming fails in both directions: the custom provider with
  the IPv4 resolver \<^verbatim>\<open>" "\<close> (not empty) is refused, and the provider
  \<^verbatim>\<open>" cloudflare"\<close>, which is none of the four identifiers in any case of its
  letters, is accepted.
\<close>

theorem New_succeeds_iff_counterexample:
  "ParseDuration ''300s'' = Inr 300000000000
   \<and> ToLower (Provider (CreateConfig\<lparr>Provider := ''custom'', IPv4Resolver := '' ''\<rparr>))
       = providerCustom
   \<and> IPv4Resolver (CreateConfig\<lparr>Provider := ''custom'', IPv4Resolver := '' ''\<rparr>) \<noteq> []
   \<and> \<not> WhitelistIPv6 (CreateConfig\<lparr>Provider := ''custom'', IPv4Resolver := '' ''\<rparr>)
   \<and> New (CreateConfig\<lparr>Provider := ''custom'', IPv4Resolver := '' ''\<rparr>) ''test''
       = Inl MissingIPv4Resolver
   \<and> ToLower (Provider (CreateConfig\<lparr>Provider := '' cloudflare''\<rparr>))
       \<notin> {providerCloudflare, providerFastly, providerCloudfront, providerCustom}
   \<and> New (CreateConfig\<lparr>Provider := '' cloudflare''\<rparr>) ''test''
       = Inr \<lparr>name = ''test'', providerName = ''cloudflare'', pollInterval = 300000000000,
              ipv4Resolver = ''https://api4.ipify.org/?format=text'',
              ipv6Resolver = ''https://api6.ipify.org/?format=text'',
              whitelistIPv6 = False, additionalSourceRange = [],
              ipStrategy = \<lparr>Depth = 0, ExcludedIPs = []\<rparr>\<rparr>"
  by (simp add: New_eval ParseDuration_300s)

text \<open>
  C2 (amended). The interval must be greater than zero, and \<^verbatim>\<open>Init\<close> checks
  it, not \<^verbatim>\<open>New\<close>: for every configuration whose interval text parses to a
  duration \<open>d\<close>, the engine that \<^verbatim>\<open>New\<close> builds holds \<open>d\<close> and
  \<^verbatim>\<open>Init\<close> fails on it exactly when \<open>d \<le> 0\<close>; and \<^verbatim>\<open>New\<close>
  succeeds exactly when it succeeds with the interval \<^verbatim>\<open>"1s"\<close> in its place,
  so it never fails for the sign of \<open>d\<close>.
\<close>

theorem Init_rejects_interval:
  "ParseDuration (intervalText config) = Inr d \<Longrightarrow>
   (\<forall>p. New config nm = Inr p \<longrightarrow>
        pollInterval p = d \<and>
        Init p = (if d \<le> 0 then Some PollIntervalNotPositive else None)) \<and>
   ((\<exists>p. New config nm = Inr p) \<longleftrightarrow>
      (\<exists>p. New (config\<lparr>PollInterval := ''1s''\<rparr>) nm = Inr p))"
  by (auto simp: New_cases intervalText_1s ParseDuration_1s providerSettingsOK_PollInterval
      Init_def split: if_splits)

theorem Init_rejects_interval_witness:
  "Init \<lparr>name = ''test'', providerName = ''cloudflare'', pollInterval = - 5000000000,
         ipv4Resolver = ''https://api4.ipify.org/?format=text'',
         ipv6Resolver = ''https://api6.ipify.org/?format=text'',
         whitelistIPv6 = False, additionalSourceRange = [],
         ipStrategy = \<lparr>Depth = 0, ExcludedIPs = []\<rparr>\<rparr> = Some PollIntervalNotPositive"
  using Init_rejects_interval [of "CreateConfig\<lparr>Provider := ''cloudflare'', PollInterval := ''-5s''\<rparr>"
      "- 5000000000" "''test''"]
  by (simp add: intervalText_def New_eval ParseDuration_minus5s)

text \<open>
  With the interval \<^verbatim>\<open>"0s"\<close>, which parses to zero, \<^verbatim>\<open>New\<close> succeeds,
  and the failure comes after construction, from \<^verbatim>\<open>Init\<close>.
\<close>

theorem New_accepts_zero_interval_counterexample:
  "ParseDuration ''0s'' = Inr 0
   \<and> New (CreateConfig\<lparr>Provider := ''cloudflare'', PollInterval := ''0s''\<rparr>) ''test''
       = Inr \<lparr>name = ''test'', providerName = ''cloudflare'', pollInterval = 0,
              ipv4Resolver = ''https://api4.ipify.org/?format=text'',
              ipv6Resolver = ''https://api6.ipify.org/?format=text'',
              whitelistIPv6 = False, additionalSourceRange = [],
              ipStrategy = \<lparr>Depth = 0, ExcludedIPs = []\<rparr>\<rparr>
   \<and> Init \<lparr>name = ''test'', providerName = ''cloudflare'', pollInterval = 0,
              ipv4Resolver = ''https://api4.ipify.org/?format=text'',
              ipv6Resolver = ''https://api6.ipify.org/?format=text'',
              whitelistIPv6 = False, additionalSourceRange = [],
              ipStrategy = \<lparr>Depth = 0, ExcludedIPs = []\<rparr>\<rparr> = Some PollIntervalNotPositive"
  by (simp add: New_eval ParseDuration_0s Init_def)

subsection \<open>Address normalizer\<close>

lemma parseIPv4Fields_length:
  "parseIPv4Fields s first v pos d fs = Some r \<Longrightarrow> length r = length fs"
  by (induction s first v pos d fs rule: parseIPv4Fields.induct)
    (auto simp: Let_def split: if_splits)

lemma parseIPv6_loop_inv:
  "parseIPv6_loop s ip i e = Some (s', ip', i', e') \<Longrightarrow> length ip = 16 \<Longrightarrow>
   (\<forall>x. e = Some x \<longrightarrow> x \<le> i) \<Longrightarrow>
   length ip' = 16 \<and> (\<forall>x. e' = Some x \<longrightarrow> x \<le> i')"
proof (induction s ip i e rule: parseIPv6_loop.induct)
  case (1 s ip i ellipsis)
  note IH = "1.IH"
  note res = "1.prems"(1)
  note len = "1.prems"(2)
  note ell = "1.prems"(3)
  show ?case
  proof (cases "i < 16")
    case False
    with res have "(s', ip', i', e') = (s, ip, i, ellipsis)"
      by (subst (asm) parseIPv6_loop.simps) simp
    with len ell show ?thesis by simp
  next
    case True
    from res True obtain acc off where hf: "hexField s 0 0 = Some (acc, off)"
      by (subst (asm) parseIPv6_loop.simps) (auto split: option.splits)
    from res True hf have off: "off \<noteq> 0"
      by (subst (asm) parseIPv6_loop.simps) (auto split: if_splits)
    show ?thesis
    proof (cases "off < length s \<and> s ! off = CHR ''.''")
      case dot: True
      from res True hf off dot obtain fs where
        fs: "parseIPv4Fields s True 0 0 0 [0, 0, 0, 0] = Some fs" and i4: "i + 4 \<le> 16"
        and r: "(s', ip', i', e') = ([], take i ip @ fs @ drop (i + 4) ip, i + 4, ellipsis)"
        by (subst (asm) parseIPv6_loop.simps) (auto split: if_splits option.splits)
      from fs have "length fs = 4" by (auto dest: parseIPv4Fields_length)
      with r len i4 ell show ?thesis by auto
    next
      case nodot: False
      define ip1 where "ip1 = ip[i := of_nat (acc div 256), i + 1 := of_nat (acc mod 256)]"
      define s1 where "s1 = drop off s"
      have len1: "length ip1 = 16" using len by (simp add: ip1_def)
      from res True hf off nodot have step:
        "(if s1 = [] then Some (s1, ip1, i + 2, ellipsis)
          else if hd s1 \<noteq> CHR '':'' then None
          else if length s1 = 1 then None
          else if hd (tl s1) = CHR '':'' then
            (if ellipsis \<noteq> None then None
             else if tl (tl s1) = [] then Some ([], ip1, i + 2, Some (i + 2))
             else parseIPv6_loop (tl (tl s1)) ip1 (i + 2) (Some (i + 2)))
          else parseIPv6_loop (tl s1) ip1 (i + 2) ellipsis) = Some (s', ip', i', e')"
        by (subst (asm) parseIPv6_loop.simps)
          (simp add: Let_def ip1_def s1_def split del: if_split cong: if_cong)
      show ?thesis
      proof (cases "s1 = []")
        case True
        with step len1 ell show ?thesis by auto
      next
        case ne: False
        with step have c1: "hd s1 = CHR '':''" "length s1 \<noteq> 1" by (auto split: if_splits)
        show ?thesis
        proof (cases "hd (tl s1) = CHR '':''")
          case dc: True
          with step ne c1 have en: "ellipsis = None" by (auto split: if_splits)
          show ?thesis
          proof (cases "tl (tl s1) = []")
            case True
            with step ne c1 dc en len1 show ?thesis by auto
          next
            case False
            with step ne c1 dc en
            have rec: "parseIPv6_loop (tl (tl s1)) ip1 (i + 2) (Some (i + 2)) = Some (s', ip', i', e')"
              by simp
            show ?thesis
              by (rule IH(1)[of "(acc, off)" acc off ip1 "i + 2" s1])
                (use True hf off nodot ne c1 dc en False rec len1 in
                  \<open>simp_all add: ip1_def s1_def\<close>)
          qed
        next
          case sc: False
          with step ne c1
          have rec: "parseIPv6_loop (tl s1) ip1 (i + 2) ellipsis = Some (s', ip', i', e')"
            by simp
          from ell have ell2: "\<forall>x. ellipsis = Some x \<longrightarrow> x \<le> Suc (Suc i)" by auto
          show ?thesis
            by (rule IH(2)[of "(acc, off)" acc off ip1 "i + 2" s1])
              (use True hf off nodot ne c1 sc rec len1 ell2 in
                \<open>simp_all add: ip1_def s1_def\<close>)
        qed
      qed
    qed
  qed
qed


lemma expand_loop_length: "length (expand_loop ip n e k) = length ip"
  by (induction k arbitrary: ip) simp_all

lemma parseIPv6_length:
  assumes "parseIPv6 inp = Some (b, z)"
  shows "length b = 16"
proof -
  define s0 where "s0 = (case IndexByte inp (CHR ''%'') of None \<Rightarrow> inp | Some k \<Rightarrow> take k inp)"
  define lead where "lead \<longleftrightarrow> length s0 \<ge> 2 \<and> s0 ! 0 = CHR '':'' \<and> s0 ! 1 = CHR '':''"
  define s1 where "s1 = (if lead then drop 2 s0 else s0)"
  define z16 :: "8 word list" where "z16 = [0, 0, 0, 0, 0, 0, 0, 0, 0, 0, 0, 0, 0, 0, 0, 0]"
  have z16: "length z16 = 16" by (simp add: z16_def)
  show ?thesis
  proof (cases "lead \<and> s1 = []")
    case True
    with assms have "b = z16"
      unfolding parseIPv6_def
      by (auto simp: Let_def s0_def lead_def s1_def z16_def split: option.splits if_splits)
    with z16 show ?thesis by simp
  next
    case False
    with assms obtain s' ip' i' e' where
      loop: "parseIPv6_loop s1 z16 0 (if lead then Some 0 else None) = Some (s', ip', i', e')"
      and fin: "(if s' \<noteq> [] then None
                 else if i' < 16 then
                   (case e' of None \<Rightarrow> None
                    | Some e \<Rightarrow> Some (clear (expand_loop ip' (16 - i') e (i' - e)) e (e + (16 - i'))))
                 else if e' \<noteq> None then None else Some ip') = Some b"
      unfolding parseIPv6_def
      by (auto simp: Let_def s0_def lead_def s1_def z16_def split: option.splits if_splits)
    from parseIPv6_loop_inv[OF loop z16]
    have inv: "length ip' = 16" "\<And>x. e' = Some x \<Longrightarrow> x \<le> i'" by auto
    from fin inv show ?thesis
      by (auto simp: clear_def expand_loop_length split: if_splits option.splits)
  qed
qed

lemma parseIPv4_length: "parseIPv4 s = Some b \<Longrightarrow> length b = 16"
  by (auto simp: parseIPv4_def v4InV6Prefix_def dest!: parseIPv4Fields_length)

lemma ParseIP_length: "ParseIP s = Some b \<Longrightarrow> length b = 16"
  by (auto simp: ParseIP_def ParseAddr_def parseIPv4_length parseIPv6_length
      split: option.splits if_splits)


lemma replicate_numeral: "replicate (numeral k) x = x # replicate (pred_numeral k) x"
  by (simp add: numeral_eq_Suc)

lemma CIDRMask_loop_numeral:
  "CIDRMask_loop (numeral k) n =
     (if n \<ge> 8 then 0xff # CIDRMask_loop (pred_numeral k) (n - 8)
      else NOT (drop_bit n 0xff) # CIDRMask_loop (pred_numeral k) 0)"
  by (simp add: numeral_eq_Suc)

lemma CIDRMask_64_128:
  "CIDRMask 64 128 = Some [0xff, 0xff, 0xff, 0xff, 0xff, 0xff, 0xff, 0xff, 0, 0, 0, 0, 0, 0, 0, 0]"
  by (simp add: CIDRMask_def CIDRMask_loop_numeral)

lemma list16:
  "length (b :: 'a list) = 16 \<Longrightarrow>
   \<exists>b0 b1 b2 b3 b4 b5 b6 b7 b8 b9 b10 b11 b12 b13 b14 b15.
     b = [b0, b1, b2, b3, b4, b5, b6, b7, b8, b9, b10, b11, b12, b13, b14, b15]"
  by (simp add: numeral_eq_Suc length_Suc_conv) blast

lemma and_255: "(x :: 8 word) AND 255 = x"
proof -
  have h: "(255 :: 8 word) = - 1" by simp
  have "x AND (- 1) = x" by simp
  then show ?thesis unfolding h .
qed

lemma Mask_64:
  assumes "length b = 16"
  shows "Mask (Some b) (CIDRMask 64 128) = Some (take 8 b @ [0, 0, 0, 0, 0, 0, 0, 0])"
proof -
  from list16[OF assms] obtain b0 b1 b2 b3 b4 b5 b6 b7 b8 b9 b10 b11 b12 b13 b14 b15 where
    b: "b = [b0, b1, b2, b3, b4, b5, b6, b7, b8, b9, b10, b11, b12, b13, b14, b15]" by blast
  show ?thesis by (simp add: b Mask_def CIDRMask_64_128 Let_def and_255)
qed

lemma To4_masked: "length b = 16 \<Longrightarrow> To4 (Some (take 8 b @ [0, 0, 0, 0, 0, 0, 0, 0])) = None"
  by (simp add: To4_def nth_append)

lemma Itoa_64: "Itoa 64 = ''64''"
  by (simp add: Itoa_def decimal.simps digits_def)


lemmas string6_eval = string6_def longestZeros.simps zeroRun.simps appendGroups.simps
  appendHex_def v6u16_def digits_def Let_def

lemma expand_loop_numeral:
  "expand_loop ip n e (numeral k) =
     expand_loop (ip[e + pred_numeral k + n := ip ! (e + pred_numeral k)]) n e (pred_numeral k)"
  by (simp add: numeral_eq_Suc)

lemmas ParseIP_eval = ParseIP_def ParseAddr_def parseIPv6_def parseIPv4_def
  parseIPv6_loop.simps hexDigit_def isDigit_def byte_def Let_def clear_def v4InV6Prefix_def
  replicate_numeral expand_loop_numeral

lemma string6_example: "string6 [0x12, 0x34, 0x12, 0x34, 0x12, 0x34, 0x12, 0x34, 0, 0, 0, 0, 0, 0, 0, 0] = ''1234:1234:1234:1234::''"
  by (simp add: string6_eval)

lemma ParseIP_mapped_example: "ParseIP ''::ffff:203.0.113.5'' = Some [0, 0, 0, 0, 0, 0, 0, 0, 0, 0, 255, 255, 203, 0, 113, 5]"
  by (simp add: ParseIP_eval)


lemma To4_iff:
  assumes "length b = 16"
  shows "To4 (Some b) \<noteq> None \<longleftrightarrow> take 12 b = v4InV6Prefix"
proof -
  from list16[OF assms] obtain b0 b1 b2 b3 b4 b5 b6 b7 b8 b9 b10 b11 b12 b13 b14 b15 where
    b: "b = [b0, b1, b2, b3, b4, b5, b6, b7, b8, b9, b10, b11, b12, b13, b14, b15]" by blast
  show ?thesis by (auto simp: b To4_def v4InV6Prefix_def)
qed

lemma ipv6ToCIDR_cases:
  "ipv6ToCIDR s =
     (case ParseIP s of
        None \<Rightarrow> Inl (NotIPv6Address s)
      | Some b \<Rightarrow>
          if take 12 b = v4InV6Prefix then Inl (NotIPv6Address s)
          else Inr (string6 (take 8 b @ [0, 0, 0, 0, 0, 0, 0, 0]) @ ''/64''))"
proof (cases "ParseIP s")
  case None
  then show ?thesis by (simp add: ipv6ToCIDR_def To4_def To16_def)
next
  case (Some b)
  then have len: "length b = 16" by (rule ParseIP_length)
  show ?thesis
  proof (cases "take 12 b = v4InV6Prefix")
    case True
    with To4_iff[OF len] have "To4 (Some b) \<noteq> None" by blast
    with Some True show ?thesis by (simp add: ipv6ToCIDR_def)
  next
    case False
    with len have "To4 (Some b) = None" using To4_iff by blast
    moreover have "To16 (Some b) = Some b" using len by (simp add: To16_def)
    moreover have "IP_String (Some (take 8 b @ [0, 0, 0, 0, 0, 0, 0, 0]))
        = string6 (take 8 b @ [0, 0, 0, 0, 0, 0, 0, 0])"
      using len by (simp add: IP_String_def To4_masked)
    ultimately show ?thesis
      using Some False len by (simp add: ipv6ToCIDR_def Mask_64 Itoa_64)
  qed
qed

lemma parseIPv4Fields_chars:
  "parseIPv4Fields s first v pos d fs = Some r \<Longrightarrow>
   (\<forall>c \<in> set s. isDigit c \<or> c = CHR ''.'') \<and> (pos < 3 \<longrightarrow> CHR ''.'' \<in> set s)"
  by (induction s first v pos d fs rule: parseIPv4Fields.induct)
    (auto simp: Let_def split: if_splits)

lemma parseIPv4_ParseIP:
  assumes "parseIPv4 s = Some b"
  shows "ParseIP s = Some b \<and> take 12 b = v4InV6Prefix"
proof -
  from assms obtain fs where fs: "parseIPv4Fields s True 0 0 0 [0, 0, 0, 0] = Some fs"
    and b: "b = v4InV6Prefix @ fs"
    by (auto simp: parseIPv4_def)
  from parseIPv4Fields_chars[OF fs]
  have chars: "\<forall>c \<in> set s. isDigit c \<or> c = CHR ''.''" and dot: "CHR ''.'' \<in> set s" by auto
  let ?P = "\<lambda>c. c = CHR ''.'' \<or> c = CHR '':'' \<or> c = CHR ''%''"
  from dot have "find ?P s \<noteq> None" by (auto simp: find_None_iff)
  then obtain c where c: "find ?P s = Some c" by auto
  then obtain i where "i < length s" "s ! i = c" "?P c" by (auto simp: find_Some_iff)
  then have "c \<in> set s" "?P c" using nth_mem by blast+
  with chars have "c = CHR ''.''" by (auto simp: isDigit_def byte_def)
  with c assms have "ParseIP s = Some b" by (simp add: ParseIP_def ParseAddr_def)
  moreover have "take 12 b = v4InV6Prefix" by (simp add: b v4InV6Prefix_def)
  ultimately show ?thesis by simp
qed

lemma ParseIP_example:
  "ParseIP ''1234:1234:1234:1234:1234:1234:1234:1234''
     = Some [0x12, 0x34, 0x12, 0x34, 0x12, 0x34, 0x12, 0x34,
             0x12, 0x34, 0x12, 0x34, 0x12, 0x34, 0x12, 0x34]"
  by (simp add: ParseIP_eval)

lemma ParseIP_v4_example:
  "ParseIP ''203.0.113.5'' = Some [0, 0, 0, 0, 0, 0, 0, 0, 0, 0, 255, 255, 203, 0, 113, 5]"
  by (simp add: ParseIP_eval)

lemma ParseIP_loopback: "ParseIP ''::1'' = Some [0, 0, 0, 0, 0, 0, 0, 0, 0, 0, 0, 0, 0, 0, 0, 1]"
  by (simp add: ParseIP_eval)

text \<open>
  C3. \<^verbatim>\<open>ipv6ToCIDR\<close> fails with the error \<^verbatim>\<open>input is not an IPv6 address\<close>
  for every input that \<^verbatim>\<open>net.ParseIP\<close> refuses and for every input that parses to
  an IPv4 address, which includes the IPv4-mapped IPv6 addresses (the first twelve
  bytes are \<^verbatim>\<open>::ffff:\<close>) and every dotted IPv4 text. Every other address is
  mapped to its first eight bytes followed by eight zero bytes (the mask of 64 bits),
  printed as an IPv6 address, with \<^verbatim>\<open>/64\<close> appended. The two examples of the
  specification hold.
\<close>

theorem ipv6ToCIDR_masks:
  "ipv6ToCIDR s =
     (case ParseIP s of
        None \<Rightarrow> Inl (NotIPv6Address s)
      | Some b \<Rightarrow>
          if take 12 b = v4InV6Prefix then Inl (NotIPv6Address s)
          else Inr (string6 (take 8 b @ [0, 0, 0, 0, 0, 0, 0, 0]) @ ''/64''))
   \<and> (\<forall>b. parseIPv4 s = Some b \<longrightarrow> ipv6ToCIDR s = Inl (NotIPv6Address s))
   \<and> ipv6ToCIDR ''1234:1234:1234:1234:1234:1234:1234:1234'' = Inr ''1234:1234:1234:1234::/64''
   \<and> ipv6ToCIDR ''203.0.113.5'' = Inl (NotIPv6Address ''203.0.113.5'')
   \<and> ipv6ToCIDR ''::ffff:203.0.113.5'' = Inl (NotIPv6Address ''::ffff:203.0.113.5'')"
proof -
  have "\<forall>b. parseIPv4 s = Some b \<longrightarrow> ipv6ToCIDR s = Inl (NotIPv6Address s)"
    by (auto simp: ipv6ToCIDR_cases dest!: parseIPv4_ParseIP)
  moreover have "ipv6ToCIDR ''1234:1234:1234:1234:1234:1234:1234:1234''
      = Inr ''1234:1234:1234:1234::/64''"
    by (simp add: ipv6ToCIDR_cases ParseIP_example v4InV6Prefix_def string6_example)
  moreover have "ipv6ToCIDR ''203.0.113.5'' = Inl (NotIPv6Address ''203.0.113.5'')"
    by (simp add: ipv6ToCIDR_cases ParseIP_v4_example v4InV6Prefix_def)
  moreover have "ipv6ToCIDR ''::ffff:203.0.113.5'' = Inl (NotIPv6Address ''::ffff:203.0.113.5'')"
    by (simp add: ipv6ToCIDR_cases ParseIP_mapped_example v4InV6Prefix_def)
  ultimately show ?thesis using ipv6ToCIDR_cases by blast
qed

theorem ipv6ToCIDR_masks_witness: "ipv6ToCIDR ''::1'' = Inr ''::/64''"
  using ipv6ToCIDR_masks [of "''::1''"]
  by (simp add: ParseIP_loopback v4InV6Prefix_def string6_eval)

end
